theory Spec2Isabelle
  imports Complex_Main
begin

section \<open>The session state\<close>

text \<open>
  The agents keep all progress in Streamlit's \<^verbatim>\<open>st.session_state\<close>, a dictionary
  keyed by strings. The code under study touches the keys \<^verbatim>\<open>"xp"\<close>,
  \<^verbatim>\<open>"level"\<close>, \<^verbatim>\<open>"badges"\<close>, \<^verbatim>\<open>"user_xp"\<close>, \<^verbatim>\<open>"user_level"\<close> and
  one key \<^verbatim>\<open>quiz_<key>_answered\<close> per quiz. The record below is that dictionary with
  one optional field per fixed key (\<open>None\<close> is "key not in the dictionary") and a map
  for the family of quiz keys, indexed by the full key string as the source builds it.
\<close>

record session_state =
  xp :: "int option"
  level :: "int option"
  badges :: "string list option"
  user_xp :: "int option"
  user_level :: "int option"
  answered :: "string \<Rightarrow> bool option"

definition empty_session :: session_state where
  "empty_session =
     \<lparr>xp = None, level = None, badges = None, user_xp = None, user_level = None,
      answered = (\<lambda>k. None)\<rparr>"

text \<open>\<^verbatim>\<open>st.session_state.get("xp", 0)\<close>, \<^verbatim>\<open>.get("level", 1)\<close>, \<^verbatim>\<open>.get("badges", [])\<close>.\<close>

definition get_xp :: "session_state \<Rightarrow> int" where
  "get_xp st = (case xp st of None \<Rightarrow> 0 | Some v \<Rightarrow> v)"

definition get_level :: "session_state \<Rightarrow> int" where
  "get_level st = (case level st of None \<Rightarrow> 1 | Some v \<Rightarrow> v)"

definition get_badges :: "session_state \<Rightarrow> string list" where
  "get_badges st = (case badges st of None \<Rightarrow> [] | Some bs \<Rightarrow> bs)"

text \<open>
  What the agents hand to the presentation layer, in the order of the calls. The
  message texts of the source are fixed strings around the interpolated values, which
  are the constructor arguments here.
\<close>

datatype event =
    SidebarHeader
  | LevelLabel int
  | Progress real
  | XpCaption int int
  | Divider
  | BadgesHeader
  | NoBadgesCaption
  | BadgeLine string
  | LevelUpToast int
  | XpToast int string
  | BadgeToast string
  | Balloons
  | Sleep nat
  | QuizHeader
  | QuizSuccess int
  | QuizInfo string
  | Radio string "string list" string
  | Button string
  | QuizError
  | Rerun

datatype error = ValueError

section \<open>OrchestratorAgent.initialize_session\<close>

definition initialize_session :: "session_state \<Rightarrow> session_state" where
  "initialize_session st =
     (let st1 = (if user_xp st = None then st\<lparr>user_xp := Some 0\<rparr> else st);
          st2 = (if user_level st1 = None then st1\<lparr>user_level := Some 1\<rparr> else st1)
      in if badges st2 = None then st2\<lparr>badges := Some []\<rparr> else st2)"

section \<open>GamificationAgent\<close>

text \<open>The argument of \<^verbatim>\<open>cols[1].progress\<close>: \<^verbatim>\<open>xp % 100 / 100\<close>, with the quotient exact.\<close>

definition progress_fraction :: "session_state \<Rightarrow> real" where
  "progress_fraction st = real_of_int (get_xp st mod 100) / 100"

definition GamificationAgent_render :: "session_state \<Rightarrow> session_state \<times> event list" where
  "GamificationAgent_render st =
     (let xp_v = get_xp st;
          level_v = get_level st;
          badges_v = get_badges st
      in (st,
          [SidebarHeader, LevelLabel level_v, Progress (progress_fraction st),
           XpCaption xp_v (level_v * 100), Divider, BadgesHeader]
          @ (if badges_v = [] then [NoBadgesCaption] else map BadgeLine badges_v)))"

definition award_xp :: "session_state \<Rightarrow> int \<Rightarrow> string \<Rightarrow> session_state \<times> event list" where
  "award_xp st amount reason =
     (let st1 = (if xp st = None then st\<lparr>xp := Some 0\<rparr> else st);
          old_level = get_level st1;
          st2 = st1\<lparr>xp := Some (get_xp st1 + amount)\<rparr>;
          new_level = 1 + get_xp st2 div 100
      in if new_level > old_level
         then (st2\<lparr>level := Some new_level\<rparr>, [LevelUpToast new_level, Balloons])
         else (st2, [XpToast amount reason]))"

definition award_badge :: "session_state \<Rightarrow> string \<Rightarrow> session_state \<times> event list" where
  "award_badge st badge_name =
     (let st1 = (if badges st = None then st\<lparr>badges := Some []\<rparr> else st)
      in if badge_name \<notin> set (get_badges st1)
         then (st1\<lparr>badges := Some (get_badges st1 @ [badge_name])\<rparr>,
               [BadgeToast badge_name, Sleep 1, Balloons])
         else (st1, []))"

section \<open>QuizAgent\<close>

record quiz_agent =
  agent_name :: string
  xp_reward :: int

definition QuizAgent :: "int \<Rightarrow> quiz_agent" where
  "QuizAgent reward = \<lparr>agent_name = ''Quiz Master'', xp_reward = reward\<rparr>"

definition quiz_key :: "string \<Rightarrow> string" where
  "quiz_key key = ''quiz_'' @ key @ ''_answered''"

text \<open>\<^verbatim>\<open>options.index(choice)\<close>: the first position of the value, \<open>None\<close> where Python
  raises \<^verbatim>\<open>ValueError\<close>.\<close>

fun list_index :: "'a list \<Rightarrow> 'a \<Rightarrow> nat option" where
  "list_index [] x = None"
| "list_index (y # ys) x = (if y = x then Some 0 else map_option Suc (list_index ys x))"

text \<open>
  One run of \<^verbatim>\<open>QuizAgent.render\<close>. The two widget reads are inputs: \<open>choice\<close> is
  what \<^verbatim>\<open>st.radio\<close> returns and \<open>clicked\<close> what \<^verbatim>\<open>st.button\<close> returns in this run.
  The third component of the result is \<open>Inl e\<close> when the run ends in the exception \<open>e\<close>;
  the state written before the raise stays written.
\<close>

definition QuizAgent_render ::
  "quiz_agent \<Rightarrow> session_state \<Rightarrow> string \<Rightarrow> string \<Rightarrow> string list \<Rightarrow> int \<Rightarrow> string
     \<Rightarrow> string \<Rightarrow> bool \<Rightarrow> session_state \<times> event list \<times> (error + unit)" where
  "QuizAgent_render self st key question options correct_idx explanation choice clicked =
     (let qk = quiz_key key;
          st1 = (if answered st qk = None
                 then st\<lparr>answered := (answered st)(qk := Some False)\<rparr> else st)
      in if answered st1 qk = Some True
         then (st1, [QuizHeader, QuizSuccess (xp_reward self), QuizInfo explanation], Inr ())
         else
           let widgets = [QuizHeader, Radio question options (''radio_'' @ key),
                          Button (''btn_'' @ key)]
           in if clicked
              then (case list_index options choice of
                      None \<Rightarrow> (st1, widgets, Inl ValueError)
                    | Some i \<Rightarrow>
                        if int i = correct_idx
                        then
                          let st2 = st1\<lparr>answered := (answered st1)(qk := Some True)\<rparr>;
                              (st3, toasts) = award_xp st2 (xp_reward self) ''Quiz Correct!''
                          in (st3, widgets @ toasts @ [Balloons, Rerun], Inr ())
                        else (st1, widgets @ [QuizError], Inr ()))
              else (st1, widgets, Inr ()))"

section \<open>Drivers: sequences of calls\<close>

text \<open>The states after each of a sequence of \<^verbatim>\<open>award_xp(amount, reason)\<close> calls.\<close>

fun award_xp_trace :: "session_state \<Rightarrow> (int \<times> string) list \<Rightarrow> session_state list" where
  "award_xp_trace st [] = []"
| "award_xp_trace st (c # cs) =
     (let st' = fst (award_xp st (fst c) (snd c)) in st' # award_xp_trace st' cs)"

text \<open>A sequence of submissions (button pressed) of the given choices to one quiz; it
  stops at the first run that raises.\<close>

fun submit_all ::
  "quiz_agent \<Rightarrow> session_state \<Rightarrow> string \<Rightarrow> string \<Rightarrow> string list \<Rightarrow> int \<Rightarrow> string
     \<Rightarrow> string list \<Rightarrow> session_state \<times> event list \<times> (error + unit)" where
  "submit_all self st key question options correct_idx explanation [] = (st, [], Inr ())"
| "submit_all self st key question options correct_idx explanation (c # cs) =
     (case QuizAgent_render self st key question options correct_idx explanation c True of
        (st', evs, Inl e) \<Rightarrow> (st', evs, Inl e)
      | (st', evs, Inr u) \<Rightarrow>
          (case submit_all self st' key question options correct_idx explanation cs of
             (st'', evs', r) \<Rightarrow> (st'', evs @ evs', r)))"

text \<open>Each call of \<^verbatim>\<open>award_xp\<close> emits exactly one of its two toasts, and nothing else
  emits them.\<close>

fun is_award_toast :: "event \<Rightarrow> bool" where
  "is_award_toast (LevelUpToast n) = True"
| "is_award_toast (XpToast a r) = True"
| "is_award_toast e = False"

definition award_count :: "event list \<Rightarrow> nat" where
  "award_count evs = length (filter is_award_toast evs)"

text \<open>Shorthands for the statements below: the three widget calls of an unanswered quiz,
  and the session state with one quiz flag written.\<close>

definition quiz_widgets :: "string \<Rightarrow> string list \<Rightarrow> string \<Rightarrow> event list" where
  "quiz_widgets question options key =
     [QuizHeader, Radio question options (''radio_'' @ key), Button (''btn_'' @ key)]"

definition set_answered :: "session_state \<Rightarrow> string \<Rightarrow> bool \<Rightarrow> session_state" where
  "set_answered st key b = st\<lparr>answered := (answered st)(quiz_key key := Some b)\<rparr>"

section \<open>The quiz of the regression page\<close>

text \<open>The one quiz the pages set up: \<^verbatim>\<open>QuizAgent(xp_reward=50)\<close>, rendered with key
  \<^verbatim>\<open>"q1"\<close>, these four options and \<^verbatim>\<open>correct_idx=1\<close>. It serves as the concrete input
  of the examples below.\<close>

definition q1_question :: string where
  "q1_question = ''In the rope analogy, what represents the 'Error'?''"

definition q1_options :: "string list" where
  "q1_options = [''The length of the rope'', ''The tension in the springs'',
                 ''The number of magnets'', ''The color of the rod'']"

definition q1_explanation :: string where
  "q1_explanation = ''The springs stretch to connect the points to the line. The more stretched they are (tension), the higher the error!''"

section \<open>Basic facts about award_xp and award_badge\<close>

lemma award_xp_eq:
  "award_xp st amount reason =
     (if get_level st < 1 + (get_xp st + amount) div 100
      then (st\<lparr>xp := Some (get_xp st + amount),
                level := Some (1 + (get_xp st + amount) div 100)\<rparr>,
            [LevelUpToast (1 + (get_xp st + amount) div 100), Balloons])
      else (st\<lparr>xp := Some (get_xp st + amount)\<rparr>, [XpToast amount reason]))"
  by (cases "xp st") (simp_all add: award_xp_def get_xp_def get_level_def Let_def)

lemma get_xp_award_xp: "get_xp (fst (award_xp st amount reason)) = get_xp st + amount"
  by (simp add: award_xp_eq get_xp_def)

lemma get_level_award_xp:
  "get_level (fst (award_xp st amount reason))
     = max (get_level st) (1 + (get_xp st + amount) div 100)"
  by (simp add: award_xp_eq get_level_def)

lemma level_award_xp:
  "level (fst (award_xp st amount reason)) =
     (if get_level st < 1 + (get_xp st + amount) div 100
      then Some (1 + (get_xp st + amount) div 100) else level st)"
  by (simp add: award_xp_eq)

lemma answered_award_xp: "answered (fst (award_xp st amount reason)) = answered st"
  by (simp add: award_xp_eq)

lemma award_count_award_xp: "award_count (snd (award_xp st amount reason)) = 1"
  by (simp add: award_xp_eq award_count_def)

lemma award_count_widgets: "award_count (quiz_widgets question options key) = 0"
  by (simp add: award_count_def quiz_widgets_def)

lemma award_count_append: "award_count (xs @ ys) = award_count xs + award_count ys"
  by (simp add: award_count_def)

lemma award_badge_eq:
  "award_badge st badge_name =
     (if badge_name \<in> set (get_badges st) then (st, [])
      else (st\<lparr>badges := Some (get_badges st @ [badge_name])\<rparr>,
            [BadgeToast badge_name, Sleep 1, Balloons]))"
  by (cases "badges st") (simp_all add: award_badge_def get_badges_def Let_def)

lemma get_badges_upd: "get_badges (st\<lparr>badges := Some bs\<rparr>) = bs"
  by (simp add: get_badges_def)

text \<open>After a call of \<^verbatim>\<open>award_xp\<close>, whatever the amount, the level is at least the level
  the XP total gives; with a non-negative amount it stays exactly that level when it
  was before.\<close>

lemma level_lower_bound_award_xp:
  "1 + get_xp (fst (award_xp st amount reason)) div 100
     \<le> get_level (fst (award_xp st amount reason))"
  by (simp add: get_xp_award_xp get_level_award_xp)

lemma level_invariant_step:
  assumes "get_level st = 1 + get_xp st div 100" and "0 \<le> amount"
  shows "get_level (fst (award_xp st amount reason))
           = 1 + get_xp (fst (award_xp st amount reason)) div 100"
proof -
  have "get_xp st div 100 \<le> (get_xp st + amount) div 100"
    using assms(2) by (intro zdiv_mono1) simp_all
  with assms(1) show ?thesis
    by (simp add: get_xp_award_xp get_level_award_xp)
qed

lemma award_xp_trace_invariant:
  assumes "\<forall>c \<in> set calls. 0 < fst c" and "get_level st = 1 + get_xp st div 100"
  shows "sorted (map get_xp (st # award_xp_trace st calls)) \<and>
         (\<forall>st' \<in> set (award_xp_trace st calls). get_level st' = 1 + get_xp st' div 100)"
  using assms
proof (induction calls arbitrary: st)
  case Nil
  show ?case by simp
next
  case (Cons c cs)
  let ?st' = "fst (award_xp st (fst c) (snd c))"
  have pos: "0 < fst c" using Cons.prems(1) by simp
  have inv': "get_level ?st' = 1 + get_xp ?st' div 100"
    using level_invariant_step [OF Cons.prems(2), of "fst c" "snd c"] pos by simp
  have rest: "\<forall>c \<in> set cs. 0 < fst c" using Cons.prems(1) by simp
  note IH = Cons.IH [OF rest inv']
  have le: "get_xp st \<le> get_xp ?st'" using pos by (simp add: get_xp_award_xp)
  have "\<forall>x \<in> set (map get_xp (?st' # award_xp_trace ?st' cs)). get_xp ?st' \<le> x"
    using IH by simp
  then have "\<forall>x \<in> set (map get_xp (?st' # award_xp_trace ?st' cs)). get_xp st \<le> x"
    using le by fastforce
  with IH inv' show ?case by (simp add: Let_def)
qed

section \<open>Basic facts about QuizAgent.render\<close>

lemma set_answered_False_idem:
  "answered st (quiz_key key) = Some False \<Longrightarrow> set_answered st key False = st"
proof -
  assume "answered st (quiz_key key) = Some False"
  then have "(answered st)(quiz_key key := Some False) = answered st"
    by (simp add: fun_upd_idem)
  then show ?thesis by (simp add: set_answered_def)
qed

lemma render_answered:
  "answered st (quiz_key key) = Some True \<Longrightarrow>
   QuizAgent_render self st key question options correct_idx explanation choice clicked =
     (st, [QuizHeader, QuizSuccess (xp_reward self), QuizInfo explanation], Inr ())"
  by (simp add: QuizAgent_render_def Let_def)

lemma render_unanswered:
  assumes "answered st (quiz_key key) \<noteq> Some True"
  shows "QuizAgent_render self st key question options correct_idx explanation choice clicked =
     (if clicked
      then (case list_index options choice of
              None \<Rightarrow> (set_answered st key False, quiz_widgets question options key,
                        Inl ValueError)
            | Some i \<Rightarrow>
                if int i = correct_idx
                then (fst (award_xp (set_answered st key True) (xp_reward self)
                             ''Quiz Correct!''),
                      quiz_widgets question options key
                        @ snd (award_xp (set_answered st key True) (xp_reward self)
                                 ''Quiz Correct!'')
                        @ [Balloons, Rerun],
                      Inr ())
                else (set_answered st key False,
                      quiz_widgets question options key @ [QuizError], Inr ()))
      else (set_answered st key False, quiz_widgets question options key, Inr ()))"
proof (cases "answered st (quiz_key key)")
  case None
  then show ?thesis
    by (simp add: QuizAgent_render_def Let_def set_answered_def quiz_widgets_def
             split: option.splits prod.splits)
next
  case (Some b)
  with assms have a: "answered st (quiz_key key) = Some False" by simp
  have m: "st\<lparr>answered := (answered st)(quiz_key key := Some True)\<rparr>
             = set_answered st key True"
    by (simp add: set_answered_def)
  show ?thesis
    by (simp add: QuizAgent_render_def Let_def a m set_answered_False_idem [OF a]
             quiz_widgets_def split: option.splits prod.splits)
qed

lemma render_wrong:
  "answered st (quiz_key key) \<noteq> Some True \<Longrightarrow> list_index options choice = Some j \<Longrightarrow>
   int j \<noteq> correct_idx \<Longrightarrow>
   QuizAgent_render self st key question options correct_idx explanation choice True =
     (set_answered st key False, quiz_widgets question options key @ [QuizError], Inr ())"
  by (simp add: render_unanswered)

lemma render_correct:
  "answered st (quiz_key key) \<noteq> Some True \<Longrightarrow> list_index options choice = Some i \<Longrightarrow>
   int i = correct_idx \<Longrightarrow>
   QuizAgent_render self st key question options correct_idx explanation choice True =
     (fst (award_xp (set_answered st key True) (xp_reward self) ''Quiz Correct!''),
      quiz_widgets question options key
        @ snd (award_xp (set_answered st key True) (xp_reward self) ''Quiz Correct!'')
        @ [Balloons, Rerun],
      Inr ())"
  by (simp add: render_unanswered)

lemma level_render:
  "level (fst (QuizAgent_render self st key question options correct_idx explanation
                 choice clicked)) = level st \<or>
   fst (QuizAgent_render self st key question options correct_idx explanation choice clicked)
     = fst (award_xp (set_answered st key True) (xp_reward self) ''Quiz Correct!'')"
proof (cases "answered st (quiz_key key) = Some True")
  case True
  then show ?thesis by (simp add: render_answered)
next
  case False
  then show ?thesis
    by (simp add: render_unanswered set_answered_def split: option.splits)
qed

lemma list_index_Some: "x \<in> set xs \<Longrightarrow> \<exists>i < length xs. list_index xs x = Some i"
  by (induction xs) auto

lemma list_index_nth: "list_index xs x = Some i \<Longrightarrow> i < length xs \<and> xs ! i = x"
  by (induction xs arbitrary: i) (auto split: if_splits)

lemma list_index_None: "list_index xs x = None \<longleftrightarrow> x \<notin> set xs"
  by (induction xs) auto

lemma quiz_key_inj: "quiz_key k = quiz_key k' \<longleftrightarrow> k = k'"
  by (simp add: quiz_key_def)

text \<open>The key of a quiz flag is none of the other keys of the session dictionary: the
  fixed ones and the widget keys \<^verbatim>\<open>radio_<key>\<close> and \<^verbatim>\<open>btn_<key>\<close>. This is what lets the
  record keep the flags in a map of their own.\<close>

lemma quiz_key_not_fixed:
  "quiz_key k \<notin> {''xp'', ''level'', ''badges'', ''user_xp'', ''user_level''}"
  by (simp add: quiz_key_def)

lemma quiz_key_not_widget:
  "quiz_key k \<noteq> ''radio_'' @ k'" "quiz_key k \<noteq> ''btn_'' @ k'"
  by (simp_all add: quiz_key_def)

lemma answered_set_answered: "answered (set_answered st key b) (quiz_key key) = Some b"
  by (simp add: set_answered_def)

lemma answered_set_answered_other:
  "k \<noteq> quiz_key key \<Longrightarrow> answered (set_answered st key b) k = answered st k"
  by (simp add: set_answered_def)

lemma set_answered_twice: "set_answered (set_answered st key b) key b' = set_answered st key b'"
  by (simp add: set_answered_def)

lemma xp_set_answered: "xp (set_answered st key b) = xp st"
  by (simp add: set_answered_def)

lemma level_set_answered: "level (set_answered st key b) = level st"
  by (simp add: set_answered_def)

lemma get_xp_set_answered: "get_xp (set_answered st key b) = get_xp st"
  by (simp add: set_answered_def get_xp_def)

lemma get_level_set_answered: "get_level (set_answered st key b) = get_level st"
  by (simp add: set_answered_def get_level_def)

lemma award_count_wrong: "award_count (quiz_widgets question options key @ [QuizError]) = 0"
  by (simp add: award_count_def quiz_widgets_def)

lemma award_count_correct:
  "award_count (quiz_widgets question options key @ snd (award_xp st amount reason)
                  @ [Balloons, Rerun]) = 1"
  by (simp add: award_count_append award_count_widgets award_count_award_xp)
     (simp add: award_count_def)

lemma award_count_success: "award_count [QuizHeader, QuizSuccess n, QuizInfo e] = 0"
  by (simp add: award_count_def)

lemma award_count_concat_wrong:
  "award_count (concat (map (\<lambda>c. quiz_widgets question options key @ [QuizError]) wrongs)) = 0"
  by (induction wrongs) (simp_all add: award_count_def quiz_widgets_def)

lemma submit_all_wrongs:
  assumes "answered st (quiz_key key) \<noteq> Some True"
      and "\<forall>c \<in> set wrongs. \<exists>j. list_index options c = Some j \<and> int j \<noteq> correct_idx"
  shows "submit_all self st key question options correct_idx explanation wrongs =
           (if wrongs = [] then st else set_answered st key False,
            concat (map (\<lambda>c. quiz_widgets question options key @ [QuizError]) wrongs),
            Inr ())"
  using assms
proof (induction wrongs arbitrary: st)
  case Nil
  show ?case by simp
next
  case (Cons c cs)
  from Cons.prems(2) obtain j where j: "list_index options c = Some j" "int j \<noteq> correct_idx"
    by auto
  have step: "QuizAgent_render self st key question options correct_idx explanation c True =
     (set_answered st key False, quiz_widgets question options key @ [QuizError], Inr ())"
    using Cons.prems(1) j by (rule render_wrong)
  have un: "answered (set_answered st key False) (quiz_key key) \<noteq> Some True"
    by (simp add: answered_set_answered)
  have rest: "\<forall>c \<in> set cs. \<exists>j. list_index options c = Some j \<and> int j \<noteq> correct_idx"
    using Cons.prems(2) by simp
  note IH = Cons.IH [OF un rest]
  show ?case
    by (simp add: step IH set_answered_twice)
qed

lemma answered_render_other:
  assumes "k \<noteq> quiz_key key"
  shows "answered (fst (QuizAgent_render self st key question options correct_idx explanation
                          choice clicked)) k = answered st k"
proof (cases "answered st (quiz_key key) = Some True")
  case True
  then show ?thesis by (simp add: render_answered)
next
  case False
  then show ?thesis using assms
    by (simp add: render_unanswered answered_award_xp answered_set_answered_other
             split: option.splits)
qed

lemma answered_render_idle:
  "(answered (fst (QuizAgent_render self st key question options correct_idx explanation
                     choice False)) (quiz_key key) = Some True)
     = (answered st (quiz_key key) = Some True)"
proof (cases "answered st (quiz_key key) = Some True")
  case True
  then show ?thesis by (simp add: render_answered)
next
  case False
  then show ?thesis by (simp add: render_unanswered answered_set_answered)
qed

text \<open>The fresh session of a page and the page's quiz, evaluated.\<close>

lemma fresh_session:
  "answered (initialize_session empty_session) k = None"
  "get_xp (initialize_session empty_session) = 0"
  "xp (initialize_session empty_session) = None"
  "level (initialize_session empty_session) = None"
  by (simp_all add: initialize_session_def empty_session_def get_xp_def Let_def)

lemma fresh_badges: "badges (initialize_session empty_session) = Some []"
  by (simp add: initialize_session_def empty_session_def Let_def)

lemma q1_index:
  "list_index q1_options ''The length of the rope'' = Some 0"
  "list_index q1_options ''The tension in the springs'' = Some 1"
  "list_index q1_options ''The color of the rod'' = Some 3"
  by (simp_all add: q1_options_def)

lemma reward_50: "xp_reward (QuizAgent 50) = 50"
  by (simp add: QuizAgent_def)

section \<open>XP and level\<close>

text \<open>
  C1. Along every sequence of \<^verbatim>\<open>award_xp\<close> calls with positive amounts, started in a
  state where the level read from the session is \<open>1 + xp div 100\<close> (the fresh session
  is one), the XP totals never decrease and the level is \<open>1 + xp div 100\<close> after every
  call. The \<^verbatim>\<open>level\<close> key is written only by the level-up branch of \<^verbatim>\<open>award_xp\<close>:
  \<^verbatim>\<open>award_badge\<close>, the sidebar and \<^verbatim>\<open>initialize_session\<close> leave it as it is, and a quiz
  run changes it only through its one call of \<^verbatim>\<open>award_xp\<close>.
\<close>

theorem award_xp_monotone_level_invariant:
  assumes "\<forall>c \<in> set calls. 0 < fst c" and "get_level st = 1 + get_xp st div 100"
  shows "sorted (map get_xp (st # award_xp_trace st calls)) \<and>
         (\<forall>st' \<in> set (award_xp_trace st calls). get_level st' = 1 + get_xp st' div 100) \<and>
         level (fst (award_xp st amount reason)) =
           (if get_level st < 1 + (get_xp st + amount) div 100
            then Some (1 + (get_xp st + amount) div 100) else level st) \<and>
         level (fst (award_badge st badge_name)) = level st \<and>
         level (fst (GamificationAgent_render st)) = level st \<and>
         level (initialize_session st) = level st \<and>
         (level (fst (QuizAgent_render self st key question options correct_idx explanation
                        choice clicked)) = level st \<or>
          fst (QuizAgent_render self st key question options correct_idx explanation
                 choice clicked)
            = fst (award_xp (set_answered st key True) (xp_reward self) ''Quiz Correct!''))"
proof -
  have "level (fst (award_badge st badge_name)) = level st"
    by (simp add: award_badge_eq)
  moreover have "level (fst (GamificationAgent_render st)) = level st"
    by (simp add: GamificationAgent_render_def Let_def)
  moreover have "level (initialize_session st) = level st"
    by (simp add: initialize_session_def Let_def)
  ultimately show ?thesis
    using award_xp_trace_invariant [OF assms] level_award_xp [of st amount reason]
      level_render [of self st key question options correct_idx explanation choice clicked]
    by blast
qed

theorem award_xp_monotone_level_invariant_witness:
  "(0::int) < 50 \<and> (0::int) < 60 \<and> (0::int) < 5 \<and>
   get_level (initialize_session empty_session)
     = 1 + get_xp (initialize_session empty_session) div 100 \<and>
   map get_xp (award_xp_trace (initialize_session empty_session)
      [(50, ''Quiz Correct!''), (60, ''Task Complete''), (5, ''Task Complete'')])
     = [50, 110, 115] \<and>
   map get_level (award_xp_trace (initialize_session empty_session)
      [(50, ''Quiz Correct!''), (60, ''Task Complete''), (5, ''Task Complete'')])
     = [1, 2, 2] \<and>
   sorted (map get_xp (initialize_session empty_session
      # award_xp_trace (initialize_session empty_session)
          [(50, ''Quiz Correct!''), (60, ''Task Complete''), (5, ''Task Complete'')])) \<and>
   list_all (\<lambda>st'. get_level st' = 1 + get_xp st' div 100)
     (award_xp_trace (initialize_session empty_session)
        [(50, ''Quiz Correct!''), (60, ''Task Complete''), (5, ''Task Complete'')])"
proof -
  let ?s = "initialize_session empty_session"
  let ?cs = "[(50::int, ''Quiz Correct!''), (60, ''Task Complete''), (5, ''Task Complete'')]"
  have h1: "\<forall>c \<in> set ?cs. 0 < fst c" by simp
  have h2: "get_level ?s = 1 + get_xp ?s div 100"
    by (simp add: initialize_session_def empty_session_def get_level_def get_xp_def Let_def)
  have t: "map get_xp (award_xp_trace ?s ?cs) = [50, 110, 115]"
          "map get_level (award_xp_trace ?s ?cs) = [1, 2, 2]"
    by (simp_all add: initialize_session_def empty_session_def award_xp_def get_level_def
          get_xp_def Let_def)
  note r = award_xp_monotone_level_invariant [OF h1 h2]
  from r have a: "sorted (map get_xp (?s # award_xp_trace ?s ?cs))" by blast
  from r have "\<forall>st' \<in> set (award_xp_trace ?s ?cs). get_level st' = 1 + get_xp st' div 100"
    by blast
  then have b: "list_all (\<lambda>st'. get_level st' = 1 + get_xp st' div 100) (award_xp_trace ?s ?cs)"
    by (simp only: list_all_iff)
  have h0: "(0::int) < 50 \<and> (0::int) < 60 \<and> (0::int) < 5" by simp
  from h0 a b h2 t show ?thesis by blast
qed

text \<open>
  C6. The level-up boundary: with 90 XP at level 1 (the \<^verbatim>\<open>level\<close> key holding 1, or
  absent and read as 1), awarding 15 XP gives 105 XP and level 2 and emits the level-up
  toast carrying the new level, with the balloons; awarding 5 more gives 110 XP, leaves
  the level at 2 and emits only the plain XP toast with the amount and the reason.
\<close>

theorem level_up_boundary:
  "award_xp (st\<lparr>xp := Some 90, level := Some 1\<rparr>) 15 reason
     = (st\<lparr>xp := Some 105, level := Some 2\<rparr>, [LevelUpToast 2, Balloons]) \<and>
   award_xp (st\<lparr>xp := Some 90, level := None\<rparr>) 15 reason
     = (st\<lparr>xp := Some 105, level := Some 2\<rparr>, [LevelUpToast 2, Balloons]) \<and>
   award_xp (st\<lparr>xp := Some 105, level := Some 2\<rparr>) 5 reason
     = (st\<lparr>xp := Some 110, level := Some 2\<rparr>, [XpToast 5 reason])"
  by (simp add: award_xp_def get_xp_def get_level_def Let_def)

text \<open>
  C4 as stated fails: \<^verbatim>\<open>award_xp\<close> has no check of its amount and no failing path.
  With 10 XP, \<^verbatim>\<open>award_xp(-5)\<close> returns normally, leaves 5 XP and emits the XP toast;
  \<^verbatim>\<open>award_xp(0)\<close> returns normally as well, with the toast for 0 XP.
\<close>

theorem award_xp_nonpositive_counterexample:
  "award_xp (empty_session\<lparr>xp := Some 10\<rparr>) (- 5) ''Task Complete''
     = (empty_session\<lparr>xp := Some 5\<rparr>, [XpToast (- 5) ''Task Complete'']) \<and>
   get_xp (fst (award_xp (empty_session\<lparr>xp := Some 10\<rparr>) (- 5) ''Task Complete''))
     \<noteq> get_xp (empty_session\<lparr>xp := Some 10\<rparr>) \<and>
   award_xp (empty_session\<lparr>xp := Some 10\<rparr>) 0 ''Task Complete''
     = (empty_session\<lparr>xp := Some 10\<rparr>, [XpToast 0 ''Task Complete''])"
  by (simp add: award_xp_def empty_session_def get_xp_def get_level_def Let_def)

text \<open>
  C4, amended. \<^verbatim>\<open>award_xp\<close> does not validate its amount. For every amount \<open>\<le> 0\<close>, in a
  state whose level is at least \<open>1 + xp div 100\<close> (so after every call of \<^verbatim>\<open>award_xp\<close>,
  see \<open>level_lower_bound_award_xp\<close>, and in the fresh session), the call returns normally: the amount is added to the
  XP total (unchanged for 0, lower for a negative amount), the level stays as it is, and
  the plain XP toast is emitted.
\<close>

theorem award_xp_nonpositive_unvalidated:
  assumes "amount \<le> 0" and "1 + get_xp st div 100 \<le> get_level st"
  shows "award_xp st amount reason
           = (st\<lparr>xp := Some (get_xp st + amount)\<rparr>, [XpToast amount reason]) \<and>
         get_xp (fst (award_xp st amount reason)) = get_xp st + amount \<and>
         get_xp (fst (award_xp st amount reason)) \<le> get_xp st \<and>
         level (fst (award_xp st amount reason)) = level st"
proof -
  have "(get_xp st + amount) div 100 \<le> get_xp st div 100"
    using assms(1) by (intro zdiv_mono1) simp_all
  with assms(2) have "\<not> get_level st < 1 + (get_xp st + amount) div 100" by linarith
  then show ?thesis using assms(1) by (simp add: award_xp_eq get_xp_def)
qed

theorem award_xp_nonpositive_unvalidated_witness:
  "(- 5 :: int) \<le> 0 \<and>
   1 + get_xp (empty_session\<lparr>xp := Some 10\<rparr>) div 100 \<le> get_level (empty_session\<lparr>xp := Some 10\<rparr>) \<and>
   award_xp (empty_session\<lparr>xp := Some 10\<rparr>) (- 5) ''Task Complete''
     = (empty_session\<lparr>xp := Some 5\<rparr>, [XpToast (- 5) ''Task Complete'']) \<and>
   level (fst (award_xp (empty_session\<lparr>xp := Some 10\<rparr>) (- 5) ''Task Complete'')) = None"
proof -
  let ?s = "empty_session\<lparr>xp := Some 10\<rparr>"
  have h1: "(- 5 :: int) \<le> 0" by simp
  have h2: "1 + get_xp ?s div 100 \<le> get_level ?s"
    by (simp add: empty_session_def get_xp_def get_level_def)
  have x: "get_xp ?s = 10" by (simp add: get_xp_def)
  have l: "level ?s = None" by (simp add: empty_session_def)
  note r = award_xp_nonpositive_unvalidated [OF h1 h2, of "''Task Complete''"]
  from r have a: "award_xp ?s (- 5) ''Task Complete''
      = (?s\<lparr>xp := Some (get_xp ?s + - 5)\<rparr>, [XpToast (- 5) ''Task Complete''])" by blast
  have b: "?s\<lparr>xp := Some (get_xp ?s + - 5)\<rparr> = empty_session\<lparr>xp := Some 5\<rparr>"
    by (simp add: x)
  from r have c: "level (fst (award_xp ?s (- 5) ''Task Complete'')) = level ?s" by blast
  from a b have a': "award_xp ?s (- 5) ''Task Complete''
      = (empty_session\<lparr>xp := Some 5\<rparr>, [XpToast (- 5) ''Task Complete''])" by simp
  from c l have c': "level (fst (award_xp ?s (- 5) ''Task Complete'')) = None" by simp
  from h1 h2 a' c' show ?thesis by blast
qed


section \<open>Badges\<close>

text \<open>
  C3. \<^verbatim>\<open>award_badge\<close> is idempotent. For a name already among the badges the call
  changes nothing and emits nothing (no badge toast); for a new name it appends the
  name and emits the badge toast, the pause and the balloons. The emitted events are
  the only report of the call, which returns no value. A second call with the same
  name is always the no-op: the number of occurrences of the name stays what it was
  when the name was present and is 1 otherwise, and a duplicate-free badge list stays
  duplicate-free.
\<close>

theorem award_badge_idempotent:
  "award_badge st badge_name =
     (if badge_name \<in> set (get_badges st) then (st, [])
      else (st\<lparr>badges := Some (get_badges st @ [badge_name])\<rparr>,
            [BadgeToast badge_name, Sleep 1, Balloons])) \<and>
   award_badge (fst (award_badge st badge_name)) badge_name
     = (fst (award_badge st badge_name), []) \<and>
   count_list (get_badges (fst (award_badge st badge_name))) badge_name =
     (if badge_name \<in> set (get_badges st) then count_list (get_badges st) badge_name else 1) \<and>
   distinct (get_badges (fst (award_badge st badge_name))) = distinct (get_badges st) \<and>
   set (get_badges (fst (award_badge st badge_name))) = insert badge_name (set (get_badges st))"
proof (intro conjI)
  show "award_badge st badge_name =
     (if badge_name \<in> set (get_badges st) then (st, [])
      else (st\<lparr>badges := Some (get_badges st @ [badge_name])\<rparr>,
            [BadgeToast badge_name, Sleep 1, Balloons]))"
    by (rule award_badge_eq)
  show "award_badge (fst (award_badge st badge_name)) badge_name
          = (fst (award_badge st badge_name), [])"
    by (simp add: award_badge_eq get_badges_upd)
  show "count_list (get_badges (fst (award_badge st badge_name))) badge_name =
     (if badge_name \<in> set (get_badges st) then count_list (get_badges st) badge_name else 1)"
    by (simp add: award_badge_eq get_badges_upd count_list_0_iff)
  show "distinct (get_badges (fst (award_badge st badge_name))) = distinct (get_badges st)"
    by (simp add: award_badge_eq get_badges_upd)
  show "set (get_badges (fst (award_badge st badge_name)))
          = insert badge_name (set (get_badges st))"
    by (auto simp add: award_badge_eq get_badges_upd)
qed

theorem award_badge_idempotent_witness:
  "get_badges (fst (award_badge (fst (award_badge (initialize_session empty_session)
      ''Regression Master'')) ''Regression Master'')) = [''Regression Master''] \<and>
   snd (award_badge (initialize_session empty_session) ''Regression Master'')
     = [BadgeToast ''Regression Master'', Sleep 1, Balloons] \<and>
   snd (award_badge (fst (award_badge (initialize_session empty_session)
      ''Regression Master'')) ''Regression Master'') = []"
proof -
  let ?s = "initialize_session empty_session"
  let ?s1 = "fst (award_badge ?s ''Regression Master'')"
  have e: "get_badges ?s = []"
    by (simp add: initialize_session_def empty_session_def get_badges_def Let_def)
  note r = award_badge_idempotent [of ?s "''Regression Master''"]
  from r have "award_badge ?s ''Regression Master'' =
     (if ''Regression Master'' \<in> set (get_badges ?s) then (?s, [])
      else (?s\<lparr>badges := Some (get_badges ?s @ [''Regression Master''])\<rparr>,
            [BadgeToast ''Regression Master'', Sleep 1, Balloons]))" by (rule conjunct1)
  then have a: "award_badge ?s ''Regression Master''
      = (?s\<lparr>badges := Some [''Regression Master'']\<rparr>,
         [BadgeToast ''Regression Master'', Sleep 1, Balloons])"
    by (simp only: e list.set empty_iff if_False append_Nil)
  from r have b: "award_badge ?s1 ''Regression Master'' = (?s1, [])" by blast
  have c: "get_badges ?s1 = [''Regression Master'']"
    by (simp only: a fst_conv get_badges_upd)
  have d: "snd (award_badge ?s ''Regression Master'')
             = [BadgeToast ''Regression Master'', Sleep 1, Balloons]"
    by (simp only: a snd_conv)
  have f: "get_badges (fst (award_badge ?s1 ''Regression Master'')) = [''Regression Master'']"
    by (simp only: b fst_conv c)
  have g: "snd (award_badge ?s1 ''Regression Master'') = []"
    by (simp only: b snd_conv)
  from f d g show ?thesis by blast
qed

text \<open>
  C5 as stated fails: \<^verbatim>\<open>award_badge\<close> has no check of the name and no failing path.
  In the fresh session \<^verbatim>\<open>award_badge("")\<close> returns normally, stores the empty name as
  a badge and emits the badge toast.
\<close>

theorem award_badge_empty_name_counterexample:
  "award_badge empty_session ''''
     = (empty_session\<lparr>badges := Some ['''']\<rparr>, [BadgeToast '''', Sleep 1, Balloons]) \<and>
   get_badges (fst (award_badge empty_session '''')) \<noteq> get_badges empty_session"
  by (simp add: award_badge_def empty_session_def get_badges_def Let_def)

text \<open>
  C5, amended. \<^verbatim>\<open>award_badge\<close> does not validate the name: the empty string is
  treated as any other name, appended with the badge toast when it is not yet among
  the badges and left alone, silently, when it is.
\<close>

theorem award_badge_empty_name_unvalidated:
  "award_badge st '''' =
     (if '''' \<in> set (get_badges st) then (st, [])
      else (st\<lparr>badges := Some (get_badges st @ [''''])\<rparr>, [BadgeToast '''', Sleep 1, Balloons]))"
  by (rule award_badge_eq)

section \<open>Quizzes\<close>

text \<open>
  C2. Once the answered flag of a quiz is true, a run of the quiz with any input (so
  also a further submission of the correct option) changes nothing in the session and
  shows only the stored success message and the explanation; \<^verbatim>\<open>award_xp\<close> is not
  called. Submitting the correct option twice in a row to an unanswered quiz
  therefore awards the reward once: the first run sets the flag and calls \<^verbatim>\<open>award_xp\<close>
  once, the second returns the state of the first, and the two runs together emit
  exactly one award toast.
\<close>

theorem quiz_resubmission_is_noop:
  "(answered st (quiz_key key) = Some True \<longrightarrow>
      QuizAgent_render self st key question options correct_idx explanation choice clicked
        = (st, [QuizHeader, QuizSuccess (xp_reward self), QuizInfo explanation], Inr ())) \<and>
   (answered st (quiz_key key) \<noteq> Some True \<and> list_index options choice = Some i \<and>
    int i = correct_idx \<longrightarrow>
      (let r1 = QuizAgent_render self st key question options correct_idx explanation
                  choice True;
           r2 = QuizAgent_render self (fst r1) key question options correct_idx explanation
                  choice True
       in snd (snd r1) = Inr () \<and>
          fst r1 = fst (award_xp (set_answered st key True) (xp_reward self) ''Quiz Correct!'') \<and>
          answered (fst r1) (quiz_key key) = Some True \<and>
          get_xp (fst r1) = get_xp st + xp_reward self \<and>
          award_count (fst (snd r1)) = 1 \<and>
          r2 = (fst r1, [QuizHeader, QuizSuccess (xp_reward self), QuizInfo explanation],
                Inr ()) \<and>
          get_xp (fst r2) = get_xp st + xp_reward self \<and>
          award_count (fst (snd r1) @ fst (snd r2)) = 1))"
proof (intro conjI impI)
  assume "answered st (quiz_key key) = Some True"
  then show "QuizAgent_render self st key question options correct_idx explanation choice clicked
        = (st, [QuizHeader, QuizSuccess (xp_reward self), QuizInfo explanation], Inr ())"
    by (rule render_answered)
next
  assume h: "answered st (quiz_key key) \<noteq> Some True \<and> list_index options choice = Some i \<and>
    int i = correct_idx"
  let ?s1 = "fst (award_xp (set_answered st key True) (xp_reward self) ''Quiz Correct!'')"
  let ?e1 = "quiz_widgets question options key
        @ snd (award_xp (set_answered st key True) (xp_reward self) ''Quiz Correct!'')
        @ [Balloons, Rerun]"
  let ?e2 = "[QuizHeader, QuizSuccess (xp_reward self), QuizInfo explanation]"
  have r1: "QuizAgent_render self st key question options correct_idx explanation choice True
              = (?s1, ?e1, Inr ())"
    using h by (simp add: render_correct)
  have a1: "answered ?s1 (quiz_key key) = Some True"
    by (simp add: answered_award_xp answered_set_answered)
  have r2: "QuizAgent_render self ?s1 key question options correct_idx explanation choice True
              = (?s1, ?e2, Inr ())"
    using a1 by (rule render_answered)
  have x1: "get_xp ?s1 = get_xp st + xp_reward self"
    by (simp add: get_xp_award_xp get_xp_set_answered)
  have c1: "award_count ?e1 = 1" by (rule award_count_correct)
  have c2: "award_count (?e1 @ ?e2) = 1"
    by (simp only: award_count_append [of ?e1 ?e2] c1 award_count_success)
  show "let r1 = QuizAgent_render self st key question options correct_idx explanation
                  choice True;
           r2 = QuizAgent_render self (fst r1) key question options correct_idx explanation
                  choice True
       in snd (snd r1) = Inr () \<and>
          fst r1 = fst (award_xp (set_answered st key True) (xp_reward self) ''Quiz Correct!'') \<and>
          answered (fst r1) (quiz_key key) = Some True \<and>
          get_xp (fst r1) = get_xp st + xp_reward self \<and>
          award_count (fst (snd r1)) = 1 \<and>
          r2 = (fst r1, [QuizHeader, QuizSuccess (xp_reward self), QuizInfo explanation],
                Inr ()) \<and>
          get_xp (fst r2) = get_xp st + xp_reward self \<and>
          award_count (fst (snd r1) @ fst (snd r2)) = 1"
    unfolding Let_def r1 fst_conv snd_conv r2
    using a1 x1 c1 c2 by blast
qed

theorem quiz_resubmission_is_noop_witness:
  "answered (initialize_session empty_session) (quiz_key ''q1'') \<noteq> Some True \<and>
   list_index q1_options ''The tension in the springs'' = Some 1 \<and>
   answered (fst (QuizAgent_render (QuizAgent 50) (initialize_session empty_session) ''q1''
       q1_question q1_options 1 q1_explanation ''The tension in the springs'' True))
     (quiz_key ''q1'') = Some True \<and>
   get_xp (fst (QuizAgent_render (QuizAgent 50) (initialize_session empty_session) ''q1''
       q1_question q1_options 1 q1_explanation ''The tension in the springs'' True)) = 50 \<and>
   QuizAgent_render (QuizAgent 50)
       (fst (QuizAgent_render (QuizAgent 50) (initialize_session empty_session) ''q1''
          q1_question q1_options 1 q1_explanation ''The tension in the springs'' True))
       ''q1'' q1_question q1_options 1 q1_explanation ''The tension in the springs'' True
     = (fst (QuizAgent_render (QuizAgent 50) (initialize_session empty_session) ''q1''
          q1_question q1_options 1 q1_explanation ''The tension in the springs'' True),
        [QuizHeader, QuizSuccess 50, QuizInfo q1_explanation], Inr ()) \<and>
   award_count
     (fst (snd (QuizAgent_render (QuizAgent 50) (initialize_session empty_session) ''q1''
          q1_question q1_options 1 q1_explanation ''The tension in the springs'' True))
      @ fst (snd (QuizAgent_render (QuizAgent 50)
          (fst (QuizAgent_render (QuizAgent 50) (initialize_session empty_session) ''q1''
             q1_question q1_options 1 q1_explanation ''The tension in the springs'' True))
          ''q1'' q1_question q1_options 1 q1_explanation ''The tension in the springs'' True)))
     = 1"
proof -
  let ?s = "initialize_session empty_session"
  let ?good = "''The tension in the springs''"
  let ?R1 = "QuizAgent_render (QuizAgent 50) ?s ''q1'' q1_question q1_options 1
               q1_explanation ?good True"
  let ?R2 = "QuizAgent_render (QuizAgent 50) (fst ?R1) ''q1'' q1_question q1_options 1
               q1_explanation ?good True"
  have h1: "answered ?s (quiz_key ''q1'') \<noteq> Some True" by (simp add: fresh_session)
  have h2: "list_index q1_options ?good = Some 1" by (rule q1_index)
  have h3: "int 1 = 1" by simp
  note t = quiz_resubmission_is_noop [where st = ?s and key = "''q1''" and self = "QuizAgent 50"
      and question = q1_question and options = q1_options and correct_idx = 1
      and explanation = q1_explanation and choice = ?good and i = 1]
  from t have "answered ?s (quiz_key ''q1'') \<noteq> Some True \<and> list_index q1_options ?good = Some 1 \<and>
      int 1 = 1 \<longrightarrow>
      (let r1 = ?R1; r2 = QuizAgent_render (QuizAgent 50) (fst r1) ''q1'' q1_question q1_options 1
               q1_explanation ?good True
       in snd (snd r1) = Inr () \<and>
          fst r1 = fst (award_xp (set_answered ?s ''q1'' True) (xp_reward (QuizAgent 50)) ''Quiz Correct!'') \<and>
          answered (fst r1) (quiz_key ''q1'') = Some True \<and>
          get_xp (fst r1) = get_xp ?s + xp_reward (QuizAgent 50) \<and>
          award_count (fst (snd r1)) = 1 \<and>
          r2 = (fst r1, [QuizHeader, QuizSuccess (xp_reward (QuizAgent 50)), QuizInfo q1_explanation],
                Inr ()) \<and>
          get_xp (fst r2) = get_xp ?s + xp_reward (QuizAgent 50) \<and>
          award_count (fst (snd r1) @ fst (snd r2)) = 1)"
    by (rule conjunct2)
  with h1 h2 h3 have "snd (snd ?R1) = Inr () \<and>
          fst ?R1 = fst (award_xp (set_answered ?s ''q1'' True) (xp_reward (QuizAgent 50)) ''Quiz Correct!'') \<and>
          answered (fst ?R1) (quiz_key ''q1'') = Some True \<and>
          get_xp (fst ?R1) = get_xp ?s + xp_reward (QuizAgent 50) \<and>
          award_count (fst (snd ?R1)) = 1 \<and>
          ?R2 = (fst ?R1, [QuizHeader, QuizSuccess (xp_reward (QuizAgent 50)), QuizInfo q1_explanation],
                Inr ()) \<and>
          get_xp (fst ?R2) = get_xp ?s + xp_reward (QuizAgent 50) \<and>
          award_count (fst (snd ?R1) @ fst (snd ?R2)) = 1"
    unfolding Let_def by blast
  then have c: "answered (fst ?R1) (quiz_key ''q1'') = Some True"
    "get_xp (fst ?R1) = get_xp ?s + xp_reward (QuizAgent 50)"
    "award_count (fst (snd ?R1) @ fst (snd ?R2)) = 1"
    by blast+
  from c(2) have x: "get_xp (fst ?R1) = 50" by (simp only: fresh_session reward_50)
  from quiz_resubmission_is_noop [where st = "fst ?R1" and key = "''q1''"
      and self = "QuizAgent 50" and question = q1_question and options = q1_options
      and correct_idx = 1 and explanation = q1_explanation and choice = ?good
      and clicked = True] c(1)
  have "?R2 = (fst ?R1, [QuizHeader, QuizSuccess (xp_reward (QuizAgent 50)),
                 QuizInfo q1_explanation], Inr ())"
    by blast
  then have r2: "?R2 = (fst ?R1, [QuizHeader, QuizSuccess 50, QuizInfo q1_explanation], Inr ())"
    by (simp only: reward_50)
  from h1 h2 c(1) x r2 c(3) show ?thesis by (intro conjI)
qed

text \<open>
  C7. On an unanswered quiz, a submission of an option whose index is not
  \<open>correct_idx\<close> shows the error message, leaves the quiz unanswered (the flag is
  false) and the XP and level as they were. This holds for any number of wrong
  submissions in a row, none of which emits an award toast. A submission of the
  option with the correct index after them sets the flag to true and calls \<^verbatim>\<open>award_xp\<close>
  once: the XP total is the old one plus the reward, with exactly one award toast.
\<close>

theorem quiz_retry_until_correct:
  assumes "answered st (quiz_key key) \<noteq> Some True"
      and "\<forall>c \<in> set wrongs. \<exists>j. list_index options c = Some j \<and> int j \<noteq> correct_idx"
      and "list_index options good = Some i" and "int i = correct_idx"
  shows "(\<forall>w \<in> set wrongs.
            QuizAgent_render self st key question options correct_idx explanation w True
              = (set_answered st key False, quiz_widgets question options key @ [QuizError],
                 Inr ())) \<and>
         (let r = submit_all self st key question options correct_idx explanation wrongs;
              r' = QuizAgent_render self (fst r) key question options correct_idx explanation
                     good True
          in fst r = (if wrongs = [] then st else set_answered st key False) \<and>
             fst (snd r)
               = concat (map (\<lambda>c. quiz_widgets question options key @ [QuizError]) wrongs) \<and>
             snd (snd r) = Inr () \<and>
             answered (fst r) (quiz_key key) \<noteq> Some True \<and>
             xp (fst r) = xp st \<and> level (fst r) = level st \<and>
             award_count (fst (snd r)) = 0 \<and>
             snd (snd r') = Inr () \<and>
             answered (fst r') (quiz_key key) = Some True \<and>
             get_xp (fst r') = get_xp st + xp_reward self \<and>
             award_count (fst (snd r')) = 1)"
proof -
  let ?sw = "if wrongs = [] then st else set_answered st key False"
  let ?ew = "concat (map (\<lambda>c. quiz_widgets question options key @ [QuizError]) wrongs)"
  let ?s' = "fst (award_xp (set_answered ?sw key True) (xp_reward self) ''Quiz Correct!'')"
  let ?e' = "quiz_widgets question options key
        @ snd (award_xp (set_answered ?sw key True) (xp_reward self) ''Quiz Correct!'')
        @ [Balloons, Rerun]"
  have single: "\<forall>w \<in> set wrongs.
            QuizAgent_render self st key question options correct_idx explanation w True
              = (set_answered st key False, quiz_widgets question options key @ [QuizError],
                 Inr ())"
    using assms(1,2) by (auto simp: render_wrong)
  have r: "submit_all self st key question options correct_idx explanation wrongs
             = (?sw, ?ew, Inr ())"
    using assms(1,2) by (rule submit_all_wrongs)
  have un: "answered ?sw (quiz_key key) \<noteq> Some True"
    using assms(1) by (simp add: answered_set_answered)
  have fx: "xp ?sw = xp st" "level ?sw = level st" "get_xp ?sw = get_xp st"
    by (simp_all add: xp_set_answered level_set_answered get_xp_set_answered)
  have r': "QuizAgent_render self ?sw key question options correct_idx explanation good True
              = (?s', ?e', Inr ())"
    using un assms(3,4) by (rule render_correct)
  have a': "answered ?s' (quiz_key key) = Some True"
    by (simp only: answered_award_xp answered_set_answered)
  have x': "get_xp ?s' = get_xp st + xp_reward self"
    by (simp only: get_xp_award_xp get_xp_set_answered fx)
  have c': "award_count ?e' = 1" by (rule award_count_correct)
  have cw: "award_count ?ew = 0" by (rule award_count_concat_wrong)
  have "let r = submit_all self st key question options correct_idx explanation wrongs;
              r' = QuizAgent_render self (fst r) key question options correct_idx explanation
                     good True
          in fst r = (if wrongs = [] then st else set_answered st key False) \<and>
             fst (snd r)
               = concat (map (\<lambda>c. quiz_widgets question options key @ [QuizError]) wrongs) \<and>
             snd (snd r) = Inr () \<and>
             answered (fst r) (quiz_key key) \<noteq> Some True \<and>
             xp (fst r) = xp st \<and> level (fst r) = level st \<and>
             award_count (fst (snd r)) = 0 \<and>
             snd (snd r') = Inr () \<and>
             answered (fst r') (quiz_key key) = Some True \<and>
             get_xp (fst r') = get_xp st + xp_reward self \<and>
             award_count (fst (snd r')) = 1"
    unfolding Let_def r fst_conv snd_conv r'
    using un fx a' x' c' cw by blast
  with single show ?thesis by blast
qed

theorem quiz_retry_until_correct_witness:
  "answered (initialize_session empty_session) (quiz_key ''q1'') \<noteq> Some True \<and>
   list_index q1_options ''The length of the rope'' = Some 0 \<and>
   list_index q1_options ''The color of the rod'' = Some 3 \<and>
   list_index q1_options ''The tension in the springs'' = Some 1 \<and>
   QuizAgent_render (QuizAgent 50) (initialize_session empty_session) ''q1'' q1_question
       q1_options 1 q1_explanation ''The length of the rope'' True
     = (set_answered (initialize_session empty_session) ''q1'' False,
        quiz_widgets q1_question q1_options ''q1'' @ [QuizError], Inr ()) \<and>
   fst (submit_all (QuizAgent 50) (initialize_session empty_session) ''q1'' q1_question
          q1_options 1 q1_explanation [''The length of the rope'', ''The color of the rod''])
     = set_answered (initialize_session empty_session) ''q1'' False \<and>
   xp (fst (submit_all (QuizAgent 50) (initialize_session empty_session) ''q1'' q1_question
          q1_options 1 q1_explanation [''The length of the rope'', ''The color of the rod'']))
     = None \<and>
   award_count (fst (snd (submit_all (QuizAgent 50) (initialize_session empty_session) ''q1''
          q1_question q1_options 1 q1_explanation
          [''The length of the rope'', ''The color of the rod'']))) = 0 \<and>
   answered (fst (QuizAgent_render (QuizAgent 50)
       (fst (submit_all (QuizAgent 50) (initialize_session empty_session) ''q1'' q1_question
          q1_options 1 q1_explanation [''The length of the rope'', ''The color of the rod'']))
       ''q1'' q1_question q1_options 1 q1_explanation ''The tension in the springs'' True))
     (quiz_key ''q1'') = Some True \<and>
   get_xp (fst (QuizAgent_render (QuizAgent 50)
       (fst (submit_all (QuizAgent 50) (initialize_session empty_session) ''q1'' q1_question
          q1_options 1 q1_explanation [''The length of the rope'', ''The color of the rod'']))
       ''q1'' q1_question q1_options 1 q1_explanation ''The tension in the springs'' True))
     = 50 \<and>
   award_count (fst (snd (QuizAgent_render (QuizAgent 50)
       (fst (submit_all (QuizAgent 50) (initialize_session empty_session) ''q1'' q1_question
          q1_options 1 q1_explanation [''The length of the rope'', ''The color of the rod'']))
       ''q1'' q1_question q1_options 1 q1_explanation ''The tension in the springs'' True)))
     = 1"
proof -
  let ?s = "initialize_session empty_session"
  let ?w1 = "''The length of the rope''"
  let ?w2 = "''The color of the rod''"
  let ?good = "''The tension in the springs''"
  let ?SUB = "submit_all (QuizAgent 50) ?s ''q1'' q1_question q1_options 1 q1_explanation
                [?w1, ?w2]"
  let ?R' = "QuizAgent_render (QuizAgent 50) (fst ?SUB) ''q1'' q1_question q1_options 1
               q1_explanation ?good True"
  have h1: "answered ?s (quiz_key ''q1'') \<noteq> Some True" by (simp add: fresh_session)
  have h2: "\<forall>c \<in> set [?w1, ?w2]. \<exists>j. list_index q1_options c = Some j \<and> int j \<noteq> 1"
    by (simp add: q1_index)
  have h3: "list_index q1_options ?good = Some 1" by (rule q1_index)
  have h4: "int 1 = 1" by simp
  note t = quiz_retry_until_correct [OF h1 h2 h3 h4, where self = "QuizAgent 50"
      and question = q1_question and explanation = q1_explanation]
  from t have "\<forall>w \<in> set [?w1, ?w2].
            QuizAgent_render (QuizAgent 50) ?s ''q1'' q1_question q1_options 1 q1_explanation
              w True
              = (set_answered ?s ''q1'' False, quiz_widgets q1_question q1_options ''q1''
                   @ [QuizError], Inr ())"
    by (rule conjunct1)
  then have a: "QuizAgent_render (QuizAgent 50) ?s ''q1'' q1_question q1_options 1
       q1_explanation ?w1 True
     = (set_answered ?s ''q1'' False, quiz_widgets q1_question q1_options ''q1'' @ [QuizError],
        Inr ())"
    by (rule bspec) simp
  from t have "fst ?SUB = (if [?w1, ?w2] = [] then ?s else set_answered ?s ''q1'' False) \<and>
             fst (snd ?SUB)
               = concat (map (\<lambda>c. quiz_widgets q1_question q1_options ''q1'' @ [QuizError])
                   [?w1, ?w2]) \<and>
             snd (snd ?SUB) = Inr () \<and>
             answered (fst ?SUB) (quiz_key ''q1'') \<noteq> Some True \<and>
             xp (fst ?SUB) = xp ?s \<and> level (fst ?SUB) = level ?s \<and>
             award_count (fst (snd ?SUB)) = 0 \<and>
             snd (snd ?R') = Inr () \<and>
             answered (fst ?R') (quiz_key ''q1'') = Some True \<and>
             get_xp (fst ?R') = get_xp ?s + xp_reward (QuizAgent 50) \<and>
             award_count (fst (snd ?R')) = 1"
    unfolding Let_def by (rule conjunct2)
  then have c:
    "fst ?SUB = (if [?w1, ?w2] = [] then ?s else set_answered ?s ''q1'' False)"
    "xp (fst ?SUB) = xp ?s"
    "award_count (fst (snd ?SUB)) = 0"
    "answered (fst ?R') (quiz_key ''q1'') = Some True"
    "get_xp (fst ?R') = get_xp ?s + xp_reward (QuizAgent 50)"
    "award_count (fst (snd ?R')) = 1"
    by blast+
  from c(1) have c1: "fst ?SUB = set_answered ?s ''q1'' False" by simp
  from c(2) have c2: "xp (fst ?SUB) = None" by (simp only: fresh_session)
  from c(5) have c5: "get_xp (fst ?R') = 50" by (simp only: fresh_session reward_50)
  from h1 q1_index(1) q1_index(3) h3 a c1 c2 c(3) c(4) c5 c(6) show ?thesis
    by (intro conjI)
qed

text \<open>When a run of the quiz raises, and what a run does when the selected value is
  one of the options.\<close>

lemma render_raises_iff:
  "(snd (snd (QuizAgent_render self st key question options correct_idx explanation
                choice clicked)) = Inl ValueError)
     = (clicked \<and> answered st (quiz_key key) \<noteq> Some True \<and> choice \<notin> set options)"
proof (cases "answered st (quiz_key key) = Some True")
  case True
  then show ?thesis by (simp add: render_answered)
next
  case False
  show ?thesis
  proof (cases "list_index options choice")
    case None
    then have "choice \<notin> set options" by (simp add: list_index_None)
    with False None show ?thesis by (simp add: render_unanswered)
  next
    case (Some i)
    then have "choice \<in> set options" using list_index_None [of options choice] by simp
    with False Some show ?thesis by (simp add: render_unanswered)
  qed
qed

lemma render_returns_iff:
  "(snd (snd (QuizAgent_render self st key question options correct_idx explanation
                choice clicked)) = Inr ())
     = (\<not> (clicked \<and> answered st (quiz_key key) \<noteq> Some True \<and> choice \<notin> set options))"
proof -
  let ?x = "snd (snd (QuizAgent_render self st key question options correct_idx explanation
                choice clicked))"
  have "(?x = Inr ()) = (?x \<noteq> Inl ValueError)"
  proof (cases ?x)
    case (Inl e)
    then show ?thesis by (cases e) simp
  next
    case (Inr u)
    then show ?thesis by simp
  qed
  then show ?thesis by (simp only: render_raises_iff)
qed

lemma render_raised:
  assumes "clicked" and "answered st (quiz_key key) \<noteq> Some True" and "choice \<notin> set options"
  shows "QuizAgent_render self st key question options correct_idx explanation choice clicked
           = (set_answered st key False, quiz_widgets question options key, Inl ValueError)"
proof -
  from assms(3) have "list_index options choice = None" by (simp add: list_index_None)
  with assms(1,2) show ?thesis by (simp add: render_unanswered)
qed

lemma render_selected_option:
  assumes "choice \<in> set options"
  shows "\<exists>i < length options. list_index options choice = Some i \<and>
          snd (snd (QuizAgent_render self st key question options correct_idx explanation
                      choice clicked)) = Inr () \<and>
          (correct_idx < 0 \<or> int (length options) \<le> correct_idx \<longrightarrow> int i \<noteq> correct_idx) \<and>
          (int i \<noteq> correct_idx \<longrightarrow>
             xp (fst (QuizAgent_render self st key question options correct_idx explanation
                        choice clicked)) = xp st \<and>
             level (fst (QuizAgent_render self st key question options correct_idx explanation
                        choice clicked)) = level st \<and>
             award_count (fst (snd (QuizAgent_render self st key question options correct_idx
                                      explanation choice clicked))) = 0 \<and>
             (answered (fst (QuizAgent_render self st key question options correct_idx
                               explanation choice clicked)) (quiz_key key) = Some True)
               = (answered st (quiz_key key) = Some True) \<and>
             (clicked \<and> answered st (quiz_key key) \<noteq> Some True \<longrightarrow>
                fst (snd (QuizAgent_render self st key question options correct_idx
                            explanation choice clicked))
                  = quiz_widgets question options key @ [QuizError]))"
proof -
  from list_index_Some [OF assms]
  obtain i where i: "i < length options" "list_index options choice = Some i"
    by (elim exE conjE)
  let ?R = "QuizAgent_render self st key question options correct_idx explanation choice clicked"
  have ok: "snd (snd ?R) = Inr ()"
  proof (cases "answered st (quiz_key key) = Some True")
    case True
    then show ?thesis by (simp add: render_answered)
  next
    case False
    then show ?thesis by (simp add: render_unanswered i)
  qed
  have range: "correct_idx < 0 \<or> int (length options) \<le> correct_idx \<longrightarrow> int i \<noteq> correct_idx"
    using i(1) by auto
  have wrong: "xp (fst ?R) = xp st \<and> level (fst ?R) = level st \<and>
      award_count (fst (snd ?R)) = 0 \<and>
      (answered (fst ?R) (quiz_key key) = Some True) = (answered st (quiz_key key) = Some True) \<and>
      (clicked \<and> answered st (quiz_key key) \<noteq> Some True \<longrightarrow>
         fst (snd ?R) = quiz_widgets question options key @ [QuizError])"
    if ne: "int i \<noteq> correct_idx"
  proof (cases "answered st (quiz_key key) = Some True")
    case True
    then show ?thesis by (simp add: render_answered award_count_success)
  next
    case False
    then show ?thesis using ne
      by (simp add: render_unanswered i xp_set_answered level_set_answered
            answered_set_answered award_count_wrong award_count_widgets)
  qed
  show ?thesis
  proof (intro exI [of _ i] conjI)
    show "i < length options" by (rule i(1))
    show "list_index options choice = Some i" by (rule i(2))
    show "snd (snd ?R) = Inr ()" by (rule ok)
    show "correct_idx < 0 \<or> int (length options) \<le> correct_idx \<longrightarrow> int i \<noteq> correct_idx"
      by (rule range)
    show "int i \<noteq> correct_idx \<longrightarrow>
      xp (fst ?R) = xp st \<and> level (fst ?R) = level st \<and>
      award_count (fst (snd ?R)) = 0 \<and>
      (answered (fst ?R) (quiz_key key) = Some True) = (answered st (quiz_key key) = Some True) \<and>
      (clicked \<and> answered st (quiz_key key) \<noteq> Some True \<longrightarrow>
         fst (snd ?R) = quiz_widgets question options key @ [QuizError])"
      using wrong by (rule impI)
  qed
qed

text \<open>
  C9 as stated fails: a submission is not free of errors for every input. With an
  empty list of options \<^verbatim>\<open>st.radio\<close> has nothing to return but \<^verbatim>\<open>None\<close>, no value is
  among the options, and with the button pressed \<^verbatim>\<open>options.index(choice)\<close> raises
  \<^verbatim>\<open>ValueError\<close>, whatever \<open>correct_idx\<close> is (here 1, 0 and 7). The selected value is a
  string in this model, so the empty string stands for \<^verbatim>\<open>None\<close>.
\<close>

theorem quiz_submission_empty_options_counterexample:
  "QuizAgent_render (QuizAgent 50) (initialize_session empty_session) ''q1'' q1_question []
       1 q1_explanation '''' True
     = (set_answered (initialize_session empty_session) ''q1'' False,
        quiz_widgets q1_question [] ''q1'', Inl ValueError) \<and>
   snd (snd (QuizAgent_render (QuizAgent 50) (initialize_session empty_session) ''q1''
       q1_question [] 0 q1_explanation '''' True)) = Inl ValueError \<and>
   snd (snd (QuizAgent_render (QuizAgent 50) (initialize_session empty_session) ''q1''
       q1_question [] 7 q1_explanation '''' True)) = Inl ValueError"
  by (simp add: render_unanswered fresh_session)

text \<open>
  C9, amended. A run of the quiz raises, and then \<^verbatim>\<open>ValueError\<close>, exactly when the
  button is pressed on an unanswered quiz and the selected value is not one of the
  options (so for an empty list of options); it then has written no more than the
  initial false flag and has shown the widgets only. Every other run returns normally.
  When the selected value is one of the options, which gives the selected index (the
  first position of the value), the run returns normally for every \<open>correct_idx\<close>; and
  when the selected index differs from \<open>correct_idx\<close>, which is always so when
  \<open>correct_idx\<close> is negative or beyond the last option, the run leaves XP and level
  alone, emits no award toast, does not change whether the quiz is answered, and, on
  a submission to an unanswered quiz, shows the error message.
\<close>

theorem quiz_submission_raises_iff_unselected:
  "(snd (snd (QuizAgent_render self st key question options correct_idx explanation
                choice clicked)) = Inl ValueError)
     = (clicked \<and> answered st (quiz_key key) \<noteq> Some True \<and> choice \<notin> set options) \<and>
   (snd (snd (QuizAgent_render self st key question options correct_idx explanation
                choice clicked)) = Inr ())
     = (\<not> (clicked \<and> answered st (quiz_key key) \<noteq> Some True \<and> choice \<notin> set options)) \<and>
   (clicked \<and> answered st (quiz_key key) \<noteq> Some True \<and> choice \<notin> set options \<longrightarrow>
      QuizAgent_render self st key question options correct_idx explanation choice clicked
        = (set_answered st key False, quiz_widgets question options key, Inl ValueError)) \<and>
   (choice \<in> set options \<longrightarrow>
      (\<exists>i < length options. list_index options choice = Some i \<and>
          snd (snd (QuizAgent_render self st key question options correct_idx explanation
                      choice clicked)) = Inr () \<and>
          (correct_idx < 0 \<or> int (length options) \<le> correct_idx \<longrightarrow> int i \<noteq> correct_idx) \<and>
          (int i \<noteq> correct_idx \<longrightarrow>
             xp (fst (QuizAgent_render self st key question options correct_idx explanation
                        choice clicked)) = xp st \<and>
             level (fst (QuizAgent_render self st key question options correct_idx explanation
                        choice clicked)) = level st \<and>
             award_count (fst (snd (QuizAgent_render self st key question options correct_idx
                                      explanation choice clicked))) = 0 \<and>
             (answered (fst (QuizAgent_render self st key question options correct_idx
                               explanation choice clicked)) (quiz_key key) = Some True)
               = (answered st (quiz_key key) = Some True) \<and>
             (clicked \<and> answered st (quiz_key key) \<noteq> Some True \<longrightarrow>
                fst (snd (QuizAgent_render self st key question options correct_idx
                            explanation choice clicked))
                  = quiz_widgets question options key @ [QuizError]))))"
proof (intro conjI impI)
  show "(snd (snd (QuizAgent_render self st key question options correct_idx explanation
                choice clicked)) = Inl ValueError)
     = (clicked \<and> answered st (quiz_key key) \<noteq> Some True \<and> choice \<notin> set options)"
    by (rule render_raises_iff)
  show "(snd (snd (QuizAgent_render self st key question options correct_idx explanation
                choice clicked)) = Inr ())
     = (\<not> (clicked \<and> answered st (quiz_key key) \<noteq> Some True \<and> choice \<notin> set options))"
    by (rule render_returns_iff)
next
  assume "clicked \<and> answered st (quiz_key key) \<noteq> Some True \<and> choice \<notin> set options"
  then show "QuizAgent_render self st key question options correct_idx explanation choice
      clicked = (set_answered st key False, quiz_widgets question options key, Inl ValueError)"
    by (intro render_raised) simp_all
next
  assume "choice \<in> set options"
  then show "\<exists>i < length options. list_index options choice = Some i \<and>
          snd (snd (QuizAgent_render self st key question options correct_idx explanation
                      choice clicked)) = Inr () \<and>
          (correct_idx < 0 \<or> int (length options) \<le> correct_idx \<longrightarrow> int i \<noteq> correct_idx) \<and>
          (int i \<noteq> correct_idx \<longrightarrow>
             xp (fst (QuizAgent_render self st key question options correct_idx explanation
                        choice clicked)) = xp st \<and>
             level (fst (QuizAgent_render self st key question options correct_idx explanation
                        choice clicked)) = level st \<and>
             award_count (fst (snd (QuizAgent_render self st key question options correct_idx
                                      explanation choice clicked))) = 0 \<and>
             (answered (fst (QuizAgent_render self st key question options correct_idx
                               explanation choice clicked)) (quiz_key key) = Some True)
               = (answered st (quiz_key key) = Some True) \<and>
             (clicked \<and> answered st (quiz_key key) \<noteq> Some True \<longrightarrow>
                fst (snd (QuizAgent_render self st key question options correct_idx
                            explanation choice clicked))
                  = quiz_widgets question options key @ [QuizError]))"
    by (rule render_selected_option)
qed

theorem quiz_submission_raises_iff_unselected_witness:
  "''The length of the rope'' \<in> set q1_options \<and>
   snd (snd (QuizAgent_render (QuizAgent 50) (initialize_session empty_session) ''q1''
       q1_question q1_options 7 q1_explanation ''The length of the rope'' True)) = Inr () \<and>
   xp (fst (QuizAgent_render (QuizAgent 50) (initialize_session empty_session) ''q1''
       q1_question q1_options 7 q1_explanation ''The length of the rope'' True)) = None \<and>
   award_count (fst (snd (QuizAgent_render (QuizAgent 50) (initialize_session empty_session)
       ''q1'' q1_question q1_options 7 q1_explanation ''The length of the rope'' True))) = 0 \<and>
   fst (snd (QuizAgent_render (QuizAgent 50) (initialize_session empty_session) ''q1''
       q1_question q1_options 7 q1_explanation ''The length of the rope'' True))
     = quiz_widgets q1_question q1_options ''q1'' @ [QuizError] \<and>
   answered (fst (QuizAgent_render (QuizAgent 50) (initialize_session empty_session) ''q1''
       q1_question q1_options 7 q1_explanation ''The length of the rope'' True))
     (quiz_key ''q1'') \<noteq> Some True \<and>
   '''' \<notin> set ([] :: string list) \<and>
   answered (initialize_session empty_session) (quiz_key ''q1'') \<noteq> Some True \<and>
   QuizAgent_render (QuizAgent 50) (initialize_session empty_session) ''q1'' q1_question []
       7 q1_explanation '''' True
     = (set_answered (initialize_session empty_session) ''q1'' False,
        quiz_widgets q1_question [] ''q1'', Inl ValueError)"
proof -
  let ?s = "initialize_session empty_session"
  let ?w1 = "''The length of the rope''"
  let ?R = "QuizAgent_render (QuizAgent 50) ?s ''q1'' q1_question q1_options 7 q1_explanation
              ?w1 True"
  let ?E = "QuizAgent_render (QuizAgent 50) ?s ''q1'' q1_question [] 7 q1_explanation '''' True"
  have h: "?w1 \<in> set q1_options" by (simp add: q1_options_def)
  have u: "answered ?s (quiz_key ''q1'') \<noteq> Some True" by (simp add: fresh_session)
  have n: "'''' \<notin> set ([] :: string list)" by simp
  note t = quiz_submission_raises_iff_unselected [where self = "QuizAgent 50" and st = ?s
      and key = "''q1''" and question = q1_question and options = q1_options
      and correct_idx = 7 and explanation = q1_explanation and choice = ?w1
      and clicked = True]
  note e = quiz_submission_raises_iff_unselected [where self = "QuizAgent 50" and st = ?s
      and key = "''q1''" and question = q1_question and options = "[]"
      and correct_idx = 7 and explanation = q1_explanation and choice = "''''"
      and clicked = True]
  from t h have "\<exists>i < length q1_options. list_index q1_options ?w1 = Some i \<and>
          snd (snd ?R) = Inr () \<and>
          (7 < (0::int) \<or> int (length q1_options) \<le> 7 \<longrightarrow> int i \<noteq> 7) \<and>
          (int i \<noteq> 7 \<longrightarrow>
             xp (fst ?R) = xp ?s \<and> level (fst ?R) = level ?s \<and>
             award_count (fst (snd ?R)) = 0 \<and>
             (answered (fst ?R) (quiz_key ''q1'') = Some True)
               = (answered ?s (quiz_key ''q1'') = Some True) \<and>
             (True \<and> answered ?s (quiz_key ''q1'') \<noteq> Some True \<longrightarrow>
                fst (snd ?R) = quiz_widgets q1_question q1_options ''q1'' @ [QuizError]))"
    by blast
  then obtain i where i: "list_index q1_options ?w1 = Some i"
    and ok: "snd (snd ?R) = Inr ()"
    and w: "int i \<noteq> 7 \<longrightarrow>
             xp (fst ?R) = xp ?s \<and> level (fst ?R) = level ?s \<and>
             award_count (fst (snd ?R)) = 0 \<and>
             (answered (fst ?R) (quiz_key ''q1'') = Some True)
               = (answered ?s (quiz_key ''q1'') = Some True) \<and>
             (True \<and> answered ?s (quiz_key ''q1'') \<noteq> Some True \<longrightarrow>
                fst (snd ?R) = quiz_widgets q1_question q1_options ''q1'' @ [QuizError])"
    by (elim exE conjE)
  from i have "i = 0" by (simp add: q1_index)
  then have "int i \<noteq> 7" by simp
  with w u have c: "xp (fst ?R) = xp ?s" "award_count (fst (snd ?R)) = 0"
    "fst (snd ?R) = quiz_widgets q1_question q1_options ''q1'' @ [QuizError]"
    "answered (fst ?R) (quiz_key ''q1'') \<noteq> Some True"
    by blast+
  from c(1) have c1: "xp (fst ?R) = None" by (simp only: fresh_session)
  from e have "True \<and> answered ?s (quiz_key ''q1'') \<noteq> Some True \<and> '''' \<notin> set ([] :: string list)
      \<longrightarrow> ?E = (set_answered ?s ''q1'' False, quiz_widgets q1_question [] ''q1'', Inl ValueError)"
    by blast
  with u n have r: "?E = (set_answered ?s ''q1'' False, quiz_widgets q1_question [] ''q1'',
      Inl ValueError)"
    by blast
  from h ok c1 c(2) c(3) c(4) n u r show ?thesis by (intro conjI)
qed

section \<open>Frame properties\<close>

text \<open>
  C10. \<^verbatim>\<open>award_badge\<close> changes at most the \<^verbatim>\<open>badges\<close> key, so XP, level and all quiz
  flags stay; \<^verbatim>\<open>award_xp\<close> changes at most the \<^verbatim>\<open>xp\<close> and \<^verbatim>\<open>level\<close> keys, so the
  badges and all quiz flags stay. The sidebar and \<^verbatim>\<open>initialize_session\<close> leave the quiz
  flags alone. A run of the quiz with key \<open>key\<close> leaves the badges and every session
  entry other than its own flag \<^verbatim>\<open>quiz_<key>_answered\<close> alone, in particular the flag of
  every quiz with another key; and a run without a submission (button not pressed)
  does not change whether its own quiz is answered.
\<close>

theorem frame_properties:
  "fst (award_badge st badge_name) = st\<lparr>badges := badges (fst (award_badge st badge_name))\<rparr> \<and>
   xp (fst (award_badge st badge_name)) = xp st \<and>
   level (fst (award_badge st badge_name)) = level st \<and>
   answered (fst (award_badge st badge_name)) = answered st \<and>
   fst (award_xp st amount reason)
     = st\<lparr>xp := xp (fst (award_xp st amount reason)),
           level := level (fst (award_xp st amount reason))\<rparr> \<and>
   badges (fst (award_xp st amount reason)) = badges st \<and>
   answered (fst (award_xp st amount reason)) = answered st \<and>
   answered (fst (GamificationAgent_render st)) = answered st \<and>
   answered (initialize_session st) = answered st \<and>
   badges (fst (QuizAgent_render self st key question options correct_idx explanation
                  choice clicked)) = badges st \<and>
   (\<forall>k. k \<noteq> quiz_key key \<longrightarrow>
      answered (fst (QuizAgent_render self st key question options correct_idx explanation
                       choice clicked)) k = answered st k) \<and>
   (key' \<noteq> key \<longrightarrow>
      answered (fst (QuizAgent_render self st key question options correct_idx explanation
                       choice clicked)) (quiz_key key') = answered st (quiz_key key')) \<and>
   (\<not> clicked \<longrightarrow>
      (answered (fst (QuizAgent_render self st key question options correct_idx explanation
                        choice clicked)) (quiz_key key) = Some True)
        = (answered st (quiz_key key) = Some True))"
proof -
  let ?R = "QuizAgent_render self st key question options correct_idx explanation choice clicked"
  have b: "fst (award_badge st badge_name)
             = st\<lparr>badges := badges (fst (award_badge st badge_name))\<rparr>"
    by (simp add: award_badge_eq)
  have b': "xp (fst (award_badge st badge_name)) = xp st"
       "level (fst (award_badge st badge_name)) = level st"
       "answered (fst (award_badge st badge_name)) = answered st"
    by (simp_all add: award_badge_eq)
  have x: "fst (award_xp st amount reason)
     = st\<lparr>xp := xp (fst (award_xp st amount reason)),
           level := level (fst (award_xp st amount reason))\<rparr>"
    by (simp add: award_xp_eq)
  have x': "badges (fst (award_xp st amount reason)) = badges st"
       "answered (fst (award_xp st amount reason)) = answered st"
    by (simp_all add: award_xp_eq)
  have g: "answered (fst (GamificationAgent_render st)) = answered st"
    by (simp add: GamificationAgent_render_def Let_def)
  have n: "answered (initialize_session st) = answered st"
    by (simp add: initialize_session_def Let_def)
  have qb: "badges (fst ?R) = badges st"
  proof (cases "answered st (quiz_key key) = Some True")
    case True
    then show ?thesis by (simp add: render_answered)
  next
    case False
    then show ?thesis
      by (simp add: render_unanswered award_xp_eq set_answered_def split: option.splits)
  qed
  have q1: "\<forall>k. k \<noteq> quiz_key key \<longrightarrow> answered (fst ?R) k = answered st k"
    by (simp add: answered_render_other)
  have q2: "key' \<noteq> key \<longrightarrow> answered (fst ?R) (quiz_key key') = answered st (quiz_key key')"
    by (simp add: answered_render_other quiz_key_inj)
  have q3: "\<not> clicked \<longrightarrow>
      (answered (fst ?R) (quiz_key key) = Some True) = (answered st (quiz_key key) = Some True)"
    by (simp add: answered_render_idle)
  show ?thesis
    by (intro conjI) (rule b b' x x' g n qb q1 q2 q3)+
qed

theorem frame_properties_witness:
  "''q2'' \<noteq> ''q1'' \<and>
   answered (fst (QuizAgent_render (QuizAgent 50) (initialize_session empty_session) ''q1''
       q1_question q1_options 1 q1_explanation ''The tension in the springs'' True))
     (quiz_key ''q2'') = None \<and>
   answered (fst (QuizAgent_render (QuizAgent 50) (initialize_session empty_session) ''q1''
       q1_question q1_options 1 q1_explanation ''The tension in the springs'' False))
     (quiz_key ''q1'') \<noteq> Some True \<and>
   xp (fst (award_badge (initialize_session empty_session) ''Regression Master'')) = None \<and>
   level (fst (award_badge (initialize_session empty_session) ''Regression Master'')) = None \<and>
   badges (fst (award_xp (initialize_session empty_session) 50 ''Quiz Correct!'')) = Some []"
proof -
  let ?s = "initialize_session empty_session"
  let ?good = "''The tension in the springs''"
  let ?R1 = "QuizAgent_render (QuizAgent 50) ?s ''q1'' q1_question q1_options 1
               q1_explanation ?good True"
  let ?R0 = "QuizAgent_render (QuizAgent 50) ?s ''q1'' q1_question q1_options 1
               q1_explanation ?good False"
  have h: "''q2'' \<noteq> ''q1''" by simp
  have u: "answered ?s (quiz_key ''q1'') \<noteq> Some True" by (simp add: fresh_session)
  note t1 = frame_properties [where st = ?s and badge_name = "''Regression Master''"
      and amount = 50 and reason = "''Quiz Correct!''" and self = "QuizAgent 50"
      and key = "''q1''" and question = q1_question and options = q1_options
      and correct_idx = 1 and explanation = q1_explanation and choice = ?good
      and clicked = True and key' = "''q2''"]
  note t0 = frame_properties [where st = ?s and self = "QuizAgent 50"
      and key = "''q1''" and question = q1_question and options = q1_options
      and correct_idx = 1 and explanation = q1_explanation and choice = ?good
      and clicked = False]
  from t1 have "''q2'' \<noteq> ''q1'' \<longrightarrow>
      answered (fst ?R1) (quiz_key ''q2'') = answered ?s (quiz_key ''q2'')" by blast
  with h have a: "answered (fst ?R1) (quiz_key ''q2'') = None"
    by (simp only: fresh_session simp_thms)
  from t0 have "\<not> False \<longrightarrow> (answered (fst ?R0) (quiz_key ''q1'') = Some True)
        = (answered ?s (quiz_key ''q1'') = Some True)" by blast
  with u have b: "answered (fst ?R0) (quiz_key ''q1'') \<noteq> Some True" by blast
  from t1 have c: "xp (fst (award_badge ?s ''Regression Master'')) = xp ?s"
    "level (fst (award_badge ?s ''Regression Master'')) = level ?s"
    "badges (fst (award_xp ?s 50 ''Quiz Correct!'')) = badges ?s" by blast+
  from c have c': "xp (fst (award_badge ?s ''Regression Master'')) = None"
    "level (fst (award_badge ?s ''Regression Master'')) = None"
    "badges (fst (award_xp ?s 50 ''Quiz Correct!'')) = Some []"
    by (simp_all only: fresh_session fresh_badges)
  from h a b c' show ?thesis by (intro conjI)
qed

end
